theory Spec2Isabelle
  imports Main "HOL-Library.AList"
begin

section \<open>Values, exceptions and the world\<close>

text \<open>
  The service of \<^verbatim>\<open>main.py\<close> moves JSON between an HTTP caller and the Notion client.
  A JSON value is what Python's parser yields: \<^verbatim>\<open>None\<close>, a bool, a number, a
  \<^verbatim>\<open>str\<close>, a \<^verbatim>\<open>list\<close> or a \<^verbatim>\<open>dict\<close>. A dict keeps its items in insertion order,
  so it is an association list; \<^verbatim>\<open>d[k] = v\<close> is \<^const>\<open>AList.update\<close> (the value is
  replaced in place when the key is there, the item is appended otherwise). The keys
  of a dict are distinct; a statement that depends on it has it as a hypothesis.
  Numbers are integers here; a \<^verbatim>\<open>str\<close> is a list of characters.
\<close>

datatype json =
    JNull
  | JBool bool
  | JNum int
  | JStr string
  | JArr "json list"
  | JObj "(string \<times> json) list"

text \<open>
  A Python exception: its class name and what \<^verbatim>\<open>str(e)\<close> gives. \<open>Exn\<close> is an instance
  of \<^verbatim>\<open>Exception\<close>, which \<^verbatim>\<open>except Exception\<close> catches; \<open>BaseExn\<close> is an instance of
  \<^verbatim>\<open>BaseException\<close> only (\<^verbatim>\<open>KeyboardInterrupt\<close>, \<^verbatim>\<open>SystemExit\<close>), which it does not.
\<close>

datatype exn =
    is_Exception: Exn (cls: string) (str_of: string)
  | BaseExn (cls: string) (str_of: string)

text \<open>
  What a view function does with a request: it returns a body and a status, or an
  exception leaves it (Flask then answers by itself).
\<close>

datatype outcome =
    Response (resp_status: nat) (resp_body: json)
  | Unhandled exn

text \<open>
  The effects of \<^verbatim>\<open>safe_notion_call\<close> that a caller can observe, in order: the
  operation was invoked, the thread slept.
\<close>

datatype event = Invoked | Slept int

text \<open>
  The world holds the state the wrapped operation works on (\<open>st\<close>) and the trace of
  the wrapper's own events. The operation has no access to the trace.
\<close>

record 's world =
  st :: 's
  trace :: "event list"

subsection \<open>Python's operations on JSON values\<close>

definition quoted :: "string \<Rightarrow> string" where
  "quoted s = CHR 0x27 # s @ [CHR 0x27]"

fun type_name :: "json \<Rightarrow> string" where
  "type_name JNull = ''NoneType''"
| "type_name (JBool _) = ''bool''"
| "type_name (JNum _) = ''int''"
| "type_name (JStr _) = ''str''"
| "type_name (JArr _) = ''list''"
| "type_name (JObj _) = ''dict''"

text \<open>Truth value testing: \<^verbatim>\<open>not x\<close> holds of None, False, 0 and the empty containers.\<close>

fun truthy :: "json \<Rightarrow> bool" where
  "truthy JNull = False"
| "truthy (JBool b) = b"
| "truthy (JNum n) = (n \<noteq> 0)"
| "truthy (JStr s) = (s \<noteq> [])"
| "truthy (JArr xs) = (xs \<noteq> [])"
| "truthy (JObj kvs) = (kvs \<noteq> [])"

definition no_attribute :: "json \<Rightarrow> string \<Rightarrow> exn" where
  "no_attribute v a =
     Exn ''AttributeError'' (quoted (type_name v) @ '' object has no attribute '' @ quoted a)"

text \<open>\<^verbatim>\<open>v.get(k, default)\<close>: only a dict has the method.\<close>

fun py_get :: "json \<Rightarrow> string \<Rightarrow> json \<Rightarrow> exn + json" where
  "py_get (JObj kvs) k d = Inr (case map_of kvs k of None \<Rightarrow> d | Some x \<Rightarrow> x)"
| "py_get v k d = Inl (no_attribute v ''get'')"

text \<open>\<^verbatim>\<open>v.items()\<close>.\<close>

fun py_items :: "json \<Rightarrow> exn + (string \<times> json) list" where
  "py_items (JObj kvs) = Inr kvs"
| "py_items v = Inl (no_attribute v ''items'')"

text \<open>\<^verbatim>\<open>v[k]\<close> with a \<^verbatim>\<open>str\<close> key.\<close>

fun py_getitem :: "json \<Rightarrow> string \<Rightarrow> exn + json" where
  "py_getitem (JObj kvs) k =
     (case map_of kvs k of None \<Rightarrow> Inl (Exn ''KeyError'' (quoted k)) | Some x \<Rightarrow> Inr x)"
| "py_getitem (JArr xs) k =
     Inl (Exn ''TypeError'' ''list indices must be integers or slices, not str'')"
| "py_getitem (JStr s) k =
     Inl (Exn ''TypeError'' (''string indices must be integers, not '' @ quoted ''str''))"
| "py_getitem v k =
     Inl (Exn ''TypeError'' (quoted (type_name v) @ '' object is not subscriptable''))"

text \<open>\<^verbatim>\<open>v[0]\<close>. The keys of a JSON dict are strings, so \<open>0\<close> is never one.\<close>

fun py_first :: "json \<Rightarrow> exn + json" where
  "py_first (JArr (x # xs)) = Inr x"
| "py_first (JArr []) = Inl (Exn ''IndexError'' ''list index out of range'')"
| "py_first (JStr (c # cs)) = Inr (JStr [c])"
| "py_first (JStr []) = Inl (Exn ''IndexError'' ''string index out of range'')"
| "py_first (JObj kvs) = Inl (Exn ''KeyError'' ''0'')"
| "py_first v =
     Inl (Exn ''TypeError'' (quoted (type_name v) @ '' object is not subscriptable''))"

text \<open>\<^verbatim>\<open>for x in v\<close>: a list gives its elements, a dict its keys, a str its characters.\<close>

fun py_iter :: "json \<Rightarrow> exn + json list" where
  "py_iter (JArr xs) = Inr xs"
| "py_iter (JObj kvs) = Inr (map (\<lambda>kv. JStr (fst kv)) kvs)"
| "py_iter (JStr s) = Inr (map (\<lambda>c. JStr [c]) s)"
| "py_iter v = Inl (Exn ''TypeError'' (quoted (type_name v) @ '' object is not iterable''))"

text \<open>Sequencing of computations that may raise.\<close>

definition bind_exn :: "exn + 'a \<Rightarrow> ('a \<Rightarrow> exn + 'b) \<Rightarrow> exn + 'b" where
  "bind_exn m f = (case m of Inl e \<Rightarrow> Inl e | Inr x \<Rightarrow> f x)"

text \<open>
  \<^verbatim>\<open>str.lower()\<close> on the letters A to Z. No character outside ASCII has one of the
  letters of \<^verbatim>\<open>tree\<close> or \<^verbatim>\<open>status\<close> as its lower case, so the comparisons of
  \<^verbatim>\<open>insert_row\<close> come out as in Python.
\<close>

definition lower_char :: "char \<Rightarrow> char" where
  "lower_char c =
     (let n = (of_char c :: nat) in if 65 \<le> n \<and> n \<le> 90 then char_of (n + 32) else c)"

definition lower :: "string \<Rightarrow> string" where
  "lower s = map lower_char s"

section \<open>The retry wrapper\<close>

text \<open>
  \<^verbatim>\<open>time.sleep(delay)\<close> blocks the thread; a negative delay raises \<^verbatim>\<open>ValueError\<close>
  and nothing is slept.
\<close>

definition sleep :: "int \<Rightarrow> 's world \<Rightarrow> (exn + unit) \<times> 's world" where
  "sleep d w =
     (if d < 0 then (Inl (Exn ''ValueError'' ''sleep length must be non-negative''), w)
      else (Inr (), w\<lparr>trace := trace w @ [Slept d]\<rparr>))"

text \<open>Invoking the zero-argument operation: it acts on \<open>st\<close>, the wrapper's trace notes it.\<close>

definition invoke :: "('s \<Rightarrow> (exn + 'a) \<times> 's) \<Rightarrow> 's world \<Rightarrow> (exn + 'a) \<times> 's world" where
  "invoke func w =
     (case func (st w) of (r, s') \<Rightarrow> (r, w\<lparr>st := s', trace := trace w @ [Invoked]\<rparr>))"

text \<open>
  \<^verbatim>\<open>
  def safe_notion_call(func, retries=1, delay=2):
      try:
          return func()
      except Exception as e:
          if retries > 0:
              time.sleep(delay)
              return safe_notion_call(func, retries - 1, delay)
          else:
              raise e
  \<close>
  An exception that is not an instance of \<^verbatim>\<open>Exception\<close> passes through the
  \<^verbatim>\<open>try\<close> statement: the operation is not invoked again and nothing is slept.
\<close>

function safe_notion_call ::
  "('s \<Rightarrow> (exn + 'a) \<times> 's) \<Rightarrow> int \<Rightarrow> int \<Rightarrow> 's world \<Rightarrow> (exn + 'a) \<times> 's world" where
  "safe_notion_call func retries delay w =
     (case invoke func w of
        (Inr v, w1) \<Rightarrow> (Inr v, w1)
      | (Inl e, w1) \<Rightarrow>
          if is_Exception e then
            if retries > 0 then
              (case sleep delay w1 of
                 (Inl e', w2) \<Rightarrow> (Inl e', w2)
               | (Inr _, w2) \<Rightarrow> safe_notion_call func (retries - 1) delay w2)
            else (Inl e, w1)
          else (Inl e, w1))"
  by pat_completeness auto
termination
  by (relation "measure (\<lambda>(func, retries, delay, w). nat retries)") auto

declare safe_notion_call.simps [simp del]

text \<open>How often the operation was invoked and how often the thread slept.\<close>

definition invocations :: "event list \<Rightarrow> nat" where
  "invocations evs = length (filter (\<lambda>ev. ev = Invoked) evs)"

definition sleeps :: "event list \<Rightarrow> nat" where
  "sleeps evs = length (filter (\<lambda>ev. ev \<noteq> Invoked) evs)"

section \<open>The Notion client\<close>

text \<open>
  The four requests the service sends, with their keyword arguments as JSON values:
  \<^verbatim>\<open>notion.databases.create(parent, title, properties)\<close>,
  \<^verbatim>\<open>notion.pages.create(parent, properties)\<close>,
  \<^verbatim>\<open>notion.databases.update(database_id, properties)\<close> and
  \<^verbatim>\<open>notion.databases.query(database_id)\<close>.
\<close>

datatype vendor_call =
    DatabasesCreate json json json
  | PagesCreate json json
  | DatabasesUpdate json json
  | DatabasesQuery json

text \<open>
  The vendor is outside the repository: it is a parameter, any function from the
  requests sent so far (the last one being answered) to a result or a failure. The
  state the client works on is the list of requests sent.
\<close>

type_synonym notion = "vendor_call list \<Rightarrow> exn + json"

definition notion_request ::
  "notion \<Rightarrow> vendor_call \<Rightarrow> vendor_call list \<Rightarrow> (exn + json) \<times> vendor_call list" where
  "notion_request notion c sent = (notion (sent @ [c]), sent @ [c])"

section \<open>The request handlers\<close>

text \<open>
  Every handler starts with \<^verbatim>\<open>request.get_json(force=True)\<close>. Flask is outside the
  repository: what that call gives (the parsed body, or the exception it raises) is the
  handler's input \<open>req\<close>. Printing to standard output is left out.
\<close>

definition error_body :: "string \<Rightarrow> json" where
  "error_body msg = JObj [(''error'', JStr msg)]"

text \<open>
  The \<^verbatim>\<open>except Exception as e\<close> clause that closes every handler: an instance of
  \<^verbatim>\<open>Exception\<close> is answered with 500 and \<^verbatim>\<open>str(e)\<close>, any other exception leaves the
  view function.
\<close>

definition except_Exception :: "exn \<Rightarrow> outcome" where
  "except_Exception e =
     (if is_Exception e then Response 500 (error_body (str_of e)) else Unhandled e)"

subsection \<open>\<^verbatim>\<open>create_table\<close>\<close>

text \<open>The chain of comparisons on the declared kind (lines 42 to 49).\<close>

definition create_table_property :: "json \<Rightarrow> json" where
  "create_table_property ftype =
     (if ftype = JStr ''title'' then JObj [(''title'', JObj [])]
      else if ftype = JStr ''rich_text'' then JObj [(''rich_text'', JObj [])]
      else if ftype = JStr ''select'' then JObj [(''select'', JObj [])]
      else JObj [(''rich_text'', JObj [])])"

text \<open>\<^verbatim>\<open>"title" in prop\<close>, for the dicts the loop has built.\<close>

fun has_key :: "string \<Rightarrow> json \<Rightarrow> bool" where
  "has_key k (JObj kvs) = (k \<in> set (map fst kvs))"
| "has_key k v = False"

text \<open>The loop over \<^verbatim>\<open>fields.items()\<close> and the check that follows it (lines 40 to 52).\<close>

definition create_table_properties :: "(string \<times> json) list \<Rightarrow> (string \<times> json) list" where
  "create_table_properties items =
     (let properties =
            fold (\<lambda>(name, ftype) props. AList.update name (create_table_property ftype) props)
              items []
      in if \<not> list_ex (\<lambda>(name, prop). has_key ''title'' prop) properties
         then AList.update ''Name'' (JObj [(''title'', JObj [])]) properties
         else properties)"

text \<open>The request that \<^verbatim>\<open>create_db\<close> sends, and the closure itself.\<close>

definition create_request :: "json \<Rightarrow> json \<Rightarrow> (string \<times> json) list \<Rightarrow> vendor_call" where
  "create_request PAGE_ID table_name properties =
     DatabasesCreate
       (JObj [(''type'', JStr ''page_id''), (''page_id'', PAGE_ID)])
       (JArr [JObj [(''type'', JStr ''text''), (''text'', JObj [(''content'', table_name)])]])
       (JObj properties)"

definition create_db :: "notion \<Rightarrow> json \<Rightarrow> json \<Rightarrow> (string \<times> json) list \<Rightarrow>
    vendor_call list \<Rightarrow> (exn + json) \<times> vendor_call list" where
  "create_db notion PAGE_ID table_name properties =
     notion_request notion (create_request PAGE_ID table_name properties)"

text \<open>The body of the \<^verbatim>\<open>try\<close> statement: \<open>Inl\<close> is the exception that reaches \<^verbatim>\<open>except\<close>.\<close>

definition create_table_try :: "notion \<Rightarrow> json \<Rightarrow> json \<Rightarrow> json \<Rightarrow> vendor_call list world \<Rightarrow>
    (exn + outcome) \<times> vendor_call list world" where
  "create_table_try notion PAGE_ID table_name fields' w =
     (case py_items fields' of
        Inl e \<Rightarrow> (Inl e, w)
      | Inr items \<Rightarrow>
          (case safe_notion_call
                  (create_db notion PAGE_ID table_name (create_table_properties items)) 1 2 w of
             (Inl e, w') \<Rightarrow> (Inl e, w')
           | (Inr db, w') \<Rightarrow>
               (case py_getitem db ''id'' of
                  Inl e \<Rightarrow> (Inl e, w')
                | Inr i \<Rightarrow>
                    (Inr (Response 200 (JObj [(''message'', JStr ''OK''), (''database_id'', i)])),
                     w'))))"

definition create_table :: "notion \<Rightarrow> json \<Rightarrow> exn + json \<Rightarrow> vendor_call list world \<Rightarrow>
    outcome \<times> vendor_call list world" where
  "create_table notion PAGE_ID req w =
     (case req of
        Inl e \<Rightarrow> (Unhandled e, w)
      | Inr j \<Rightarrow>
          (let data = (if truthy j then j else JObj []) in
           case py_get data ''table'' JNull of
             Inl e \<Rightarrow> (Unhandled e, w)
           | Inr table_name \<Rightarrow>
               (case py_get data ''fields'' JNull of
                  Inl e \<Rightarrow> (Unhandled e, w)
                | Inr fields' \<Rightarrow>
                    if \<not> truthy table_name \<or> \<not> truthy fields'
                    then (Response 400 (error_body ''Missing table name or fields''), w)
                    else
                      (case create_table_try notion PAGE_ID table_name fields' w of
                         (Inr resp, w') \<Rightarrow> (resp, w')
                       | (Inl e, w') \<Rightarrow> (except_Exception e, w')))))"

subsection \<open>\<^verbatim>\<open>insert_row\<close>\<close>

text \<open>The value written for one field (lines 80 to 86).\<close>

definition encode_value :: "string \<Rightarrow> json \<Rightarrow> json" where
  "encode_value k v =
     (if lower k = ''tree''
      then JObj [(''title'', JArr [JObj [(''text'', JObj [(''content'', v)])]])]
      else if lower k = ''status''
      then JObj [(''select'', JObj [(''name'', v)])]
      else JObj [(''rich_text'', JArr [JObj [(''text'', JObj [(''content'', v)])]])])"

definition insert_row_properties :: "(string \<times> json) list \<Rightarrow> (string \<times> json) list" where
  "insert_row_properties items =
     fold (\<lambda>(k, v) props. AList.update k (encode_value k v) props) items []"

definition insert_page :: "notion \<Rightarrow> json \<Rightarrow> (string \<times> json) list \<Rightarrow>
    vendor_call list \<Rightarrow> (exn + json) \<times> vendor_call list" where
  "insert_page notion db_id properties =
     notion_request notion (PagesCreate (JObj [(''database_id'', db_id)]) (JObj properties))"

definition insert_row_try :: "notion \<Rightarrow> json \<Rightarrow> json \<Rightarrow> vendor_call list world \<Rightarrow>
    (exn + outcome) \<times> vendor_call list world" where
  "insert_row_try notion db_id values w =
     (case py_items values of
        Inl e \<Rightarrow> (Inl e, w)
      | Inr items \<Rightarrow>
          (case safe_notion_call (insert_page notion db_id (insert_row_properties items)) 1 2 w of
             (Inl e, w') \<Rightarrow> (Inl e, w')
           | (Inr page, w') \<Rightarrow>
               (case py_getitem page ''id'' of
                  Inl e \<Rightarrow> (Inl e, w')
                | Inr i \<Rightarrow>
                    (Inr (Response 200 (JObj [(''message'', JStr ''OK''), (''page_id'', i)])),
                     w'))))"

definition insert_row :: "notion \<Rightarrow> exn + json \<Rightarrow> vendor_call list world \<Rightarrow>
    outcome \<times> vendor_call list world" where
  "insert_row notion req w =
     (case req of
        Inl e \<Rightarrow> (Unhandled e, w)
      | Inr data \<Rightarrow>
          (case py_get data ''database_id'' JNull of
             Inl e \<Rightarrow> (Unhandled e, w)
           | Inr db_id \<Rightarrow>
               (case py_get data ''values'' JNull of
                  Inl e \<Rightarrow> (Unhandled e, w)
                | Inr values \<Rightarrow>
                    if \<not> truthy db_id \<or> \<not> truthy values
                    then (Response 400 (error_body ''Missing database_id or values''), w)
                    else
                      (case insert_row_try notion db_id values w of
                         (Inr resp, w') \<Rightarrow> (resp, w')
                       | (Inl e, w') \<Rightarrow> (except_Exception e, w')))))"

subsection \<open>\<^verbatim>\<open>update_table\<close>\<close>

definition update_table_property :: "json \<Rightarrow> json" where
  "update_table_property ftype =
     (if ftype = JStr ''title'' then JObj [(''title'', JObj [])]
      else if ftype = JStr ''rich_text'' then JObj [(''rich_text'', JObj [])]
      else if ftype = JStr ''select'' then JObj [(''select'', JObj [(''options'', JArr [])])]
      else JObj [(''rich_text'', JObj [])])"

definition update_table_properties :: "(string \<times> json) list \<Rightarrow> (string \<times> json) list" where
  "update_table_properties items =
     fold (\<lambda>(name, ftype) props. AList.update name (update_table_property ftype) props)
       items []"

definition update_db :: "notion \<Rightarrow> json \<Rightarrow> (string \<times> json) list \<Rightarrow>
    vendor_call list \<Rightarrow> (exn + json) \<times> vendor_call list" where
  "update_db notion db_id properties =
     notion_request notion (DatabasesUpdate db_id (JObj properties))"

definition update_table_try :: "notion \<Rightarrow> json \<Rightarrow> json \<Rightarrow> vendor_call list world \<Rightarrow>
    (exn + outcome) \<times> vendor_call list world" where
  "update_table_try notion db_id new_fields w =
     (case py_items new_fields of
        Inl e \<Rightarrow> (Inl e, w)
      | Inr items \<Rightarrow>
          (case safe_notion_call (update_db notion db_id (update_table_properties items)) 1 2 w of
             (Inl e, w') \<Rightarrow> (Inl e, w')
           | (Inr result, w') \<Rightarrow>
               (Inr (Response 200 (JObj [(''message'', JStr ''Updated''), (''database_id'', db_id)])),
                w')))"

definition update_table :: "notion \<Rightarrow> exn + json \<Rightarrow> vendor_call list world \<Rightarrow>
    outcome \<times> vendor_call list world" where
  "update_table notion req w =
     (case req of
        Inl e \<Rightarrow> (Unhandled e, w)
      | Inr data \<Rightarrow>
          (case py_get data ''database_id'' JNull of
             Inl e \<Rightarrow> (Unhandled e, w)
           | Inr db_id \<Rightarrow>
               (case py_get data ''fields'' JNull of
                  Inl e \<Rightarrow> (Unhandled e, w)
                | Inr new_fields \<Rightarrow>
                    if \<not> truthy db_id \<or> \<not> truthy new_fields
                    then (Response 400 (error_body ''Missing database_id or fields''), w)
                    else
                      (case update_table_try notion db_id new_fields w of
                         (Inr resp, w') \<Rightarrow> (resp, w')
                       | (Inl e, w') \<Rightarrow> (except_Exception e, w')))))"

subsection \<open>\<^verbatim>\<open>get_rows\<close>\<close>

text \<open>
  The right-hand sides of lines 157 to 164: the entry of \<^verbatim>\<open>row\<close> for one property.
  In \<^verbatim>\<open>a[0]["text"]["content"] if a else ""\<close> the condition is evaluated first.
\<close>

definition first_content :: "json \<Rightarrow> exn + json" where
  "first_content runs =
     bind_exn (py_first runs) (\<lambda>run.
     bind_exn (py_getitem run ''text'') (\<lambda>text.
     py_getitem text ''content''))"

definition decode_value :: "json \<Rightarrow> exn + json" where
  "decode_value v =
     bind_exn (py_getitem v ''type'') (\<lambda>t.
       if t = JStr ''title'' then
         bind_exn (py_getitem v ''title'') (\<lambda>runs.
           if truthy runs then first_content runs else Inr (JStr []))
       else if t = JStr ''rich_text'' then
         bind_exn (py_getitem v ''rich_text'') (\<lambda>runs.
           if truthy runs then first_content runs else Inr (JStr []))
       else if t = JStr ''select'' then
         bind_exn (py_getitem v ''select'') (\<lambda>opt.
           if truthy opt then py_getitem opt ''name'' else Inr (JStr []))
       else Inr (JStr ''[unsupported type]''))"

text \<open>The loop over \<^verbatim>\<open>props.items()\<close>, which fills \<^verbatim>\<open>row\<close>.\<close>

fun decode_props :: "(string \<times> json) list \<Rightarrow> (string \<times> json) list \<Rightarrow>
    exn + (string \<times> json) list" where
  "decode_props [] row = Inr row"
| "decode_props ((key, v) # rest) row =
     (case decode_value v of
        Inl e \<Rightarrow> Inl e
      | Inr x \<Rightarrow> decode_props rest (AList.update key x row))"

definition decode_row :: "json \<Rightarrow> exn + json" where
  "decode_row result =
     bind_exn (py_get result ''properties'' (JObj [])) (\<lambda>props.
     bind_exn (py_items props) (\<lambda>items.
     bind_exn (decode_props items []) (\<lambda>row. Inr (JObj row))))"

text \<open>The loop over the results, which appends to \<^verbatim>\<open>rows\<close>.\<close>

fun decode_rows :: "json list \<Rightarrow> json list \<Rightarrow> exn + json list" where
  "decode_rows [] rows = Inr rows"
| "decode_rows (result # rest) rows =
     (case decode_row result of
        Inl e \<Rightarrow> Inl e
      | Inr row \<Rightarrow> decode_rows rest (rows @ [row]))"

definition query_db :: "notion \<Rightarrow> json \<Rightarrow> vendor_call list \<Rightarrow> (exn + json) \<times> vendor_call list" where
  "query_db notion db_id = notion_request notion (DatabasesQuery db_id)"

definition get_rows_try :: "notion \<Rightarrow> json \<Rightarrow> vendor_call list world \<Rightarrow>
    (exn + outcome) \<times> vendor_call list world" where
  "get_rows_try notion db_id w =
     (case safe_notion_call (query_db notion db_id) 1 2 w of
        (Inl e, w') \<Rightarrow> (Inl e, w')
      | (Inr response, w') \<Rightarrow>
          (bind_exn (py_get response ''results'' (JArr [])) (\<lambda>results.
           bind_exn (py_iter results) (\<lambda>elems.
           bind_exn (decode_rows elems []) (\<lambda>rows. Inr (Response 200 (JArr rows))))), w'))"

definition get_rows :: "notion \<Rightarrow> exn + json \<Rightarrow> vendor_call list world \<Rightarrow>
    outcome \<times> vendor_call list world" where
  "get_rows notion req w =
     (case req of
        Inl e \<Rightarrow> (Unhandled e, w)
      | Inr data \<Rightarrow>
          (case py_get data ''database_id'' JNull of
             Inl e \<Rightarrow> (Unhandled e, w)
           | Inr db_id \<Rightarrow>
               if \<not> truthy db_id
               then (Response 400 (error_body ''Missing database_id''), w)
               else
                 (case get_rows_try notion db_id w of
                    (Inr resp, w') \<Rightarrow> (resp, w')
                  | (Inl e, w') \<Rightarrow> (except_Exception e, w'))))"

section \<open>The spec's reading of a field name\<close>

text \<open>
  The spec says that the encoder branches on the field name case-insensitively. This
  is that reading, written without \<^const>\<open>lower\<close>: two characters are the same letter when
  they are equal or one is a capital A to Z and the other its small form; a field is
  named \<open>target\<close> when it has the same letters in the same order.
\<close>

definition spec_same_letter :: "char \<Rightarrow> char \<Rightarrow> bool" where
  "spec_same_letter c d =
     (c = d
      \<or> (65 \<le> (of_char c :: nat) \<and> (of_char c :: nat) \<le> 90 \<and> (of_char c :: nat) + 32 = of_char d)
      \<or> (65 \<le> (of_char d :: nat) \<and> (of_char d :: nat) \<le> 90 \<and> (of_char d :: nat) + 32 = of_char c))"

definition spec_named :: "string \<Rightarrow> string \<Rightarrow> bool" where
  "spec_named target k = list_all2 spec_same_letter k target"

section \<open>What the vendor stores\<close>

text \<open>
  The vendor is outside the repository. It returns what was written with more in it:
  an object may have further keys (a run comes back with \<^verbatim>\<open>plain_text\<close> and
  \<^verbatim>\<open>annotations\<close>, an option with \<^verbatim>\<open>id\<close> and \<^verbatim>\<open>color\<close>), a list has the same length,
  a scalar is the same. \<open>enriches stored sent\<close> says so.
\<close>

fun enriches :: "json \<Rightarrow> json \<Rightarrow> bool" where
  "enriches (JObj a) (JObj b) =
     list_all (\<lambda>kv. case map_of a (fst kv) of None \<Rightarrow> False | Some x \<Rightarrow> enriches x (snd kv)) b"
| "enriches (JArr xs) (JArr ys) = list_all2 enriches xs ys"
| "enriches x y = (x = y)"

text \<open>
  A property \<open>p\<close> of a page is the stored form of an encoded value \<open>e\<close> when it is
  tagged with the kind of \<open>e\<close> under \<^verbatim>\<open>type\<close> and enriches \<open>e\<close>.
\<close>

fun stored_as :: "json \<Rightarrow> json \<Rightarrow> bool" where
  "stored_as (JObj p) (JObj [(kind, e)]) =
     (map_of p ''type'' = Some (JStr kind) \<and> enriches (JObj p) (JObj [(kind, e)]))"
| "stored_as p e = False"

text \<open>
  The properties of a page are the stored form of the properties that were sent when
  every sent field is stored under its name, in some letter case, and every property
  of the page is one of them. The order is the vendor's.
\<close>

definition stored_record :: "(string \<times> json) list \<Rightarrow> (string \<times> json) list \<Rightarrow> bool" where
  "stored_record props sent =
     (list_all (\<lambda>ke. list_ex (\<lambda>kp. spec_named (fst ke) (fst kp) \<and> stored_as (snd kp) (snd ke)) props)
        sent
      \<and> list_all (\<lambda>kp. list_ex (\<lambda>ke. spec_named (fst ke) (fst kp) \<and> stored_as (snd kp) (snd ke)) sent)
        props)"

section \<open>Properties of the retry wrapper\<close>

lemma invocations_simps [simp]:
  "invocations [] = 0"
  "invocations (Invoked # evs) = Suc (invocations evs)"
  "invocations (Slept d # evs) = invocations evs"
  "invocations (xs @ ys) = invocations xs + invocations ys"
  by (simp_all add: invocations_def)

lemma sleeps_simps [simp]:
  "sleeps [] = 0"
  "sleeps (Invoked # evs) = sleeps evs"
  "sleeps (Slept d # evs) = Suc (sleeps evs)"
  "sleeps (xs @ ys) = sleeps xs + sleeps ys"
  by (simp_all add: sleeps_def)

lemma safe_notion_call_trace:
  "\<exists>evs. trace (snd (safe_notion_call func retries delay w)) = trace w @ evs
      \<and> 1 \<le> invocations evs
      \<and> invocations evs \<le> nat retries + 1 \<and> sleeps evs \<le> nat retries"
proof (induction func retries delay w rule: safe_notion_call.induct)
  case (1 func retries delay w)
  obtain r s' where f: "func (st w) = (r, s')" by (cases "func (st w)")
  let ?w1 = "w\<lparr>st := s', trace := trace w @ [Invoked]\<rparr>"
  have inv: "invoke func w = (r, ?w1)" by (simp add: invoke_def f)
  show ?case
  proof (cases r)
    case (Inr v)
    then have "safe_notion_call func retries delay w = (Inr v, ?w1)"
      by (simp add: safe_notion_call.simps [of func retries delay w] inv)
    then show ?thesis by (intro exI [of _ "[Invoked]"]) simp
  next
    case (Inl e)
    show ?thesis
    proof (cases "is_Exception e \<and> retries > 0")
      case False
      then have "safe_notion_call func retries delay w = (Inl e, ?w1)"
        by (auto simp add: safe_notion_call.simps [of func retries delay w] inv Inl)
      then show ?thesis by (intro exI [of _ "[Invoked]"]) simp
    next
      case True
      then have caught: "is_Exception e" and pos: "retries > 0" by simp_all
      show ?thesis
      proof (cases "delay < 0")
        case neg: True
        then have "safe_notion_call func retries delay w =
            (Inl (Exn ''ValueError'' ''sleep length must be non-negative''), ?w1)"
          by (simp add: safe_notion_call.simps [of func retries delay w] inv Inl True sleep_def)
        then show ?thesis by (intro exI [of _ "[Invoked]"]) simp
      next
        case False
        let ?w2 = "?w1\<lparr>trace := trace ?w1 @ [Slept delay]\<rparr>"
        have sl: "sleep delay ?w1 = (Inr (), ?w2)" using False by (simp add: sleep_def)
        have eq: "safe_notion_call func retries delay w = safe_notion_call func (retries - 1) delay ?w2"
          using True sl by (simp add: safe_notion_call.simps [of func retries delay w] inv Inl)
        from "1.IH" [OF inv [symmetric] Inl caught pos sl [symmetric] refl]
        obtain evs where evs: "trace (snd (safe_notion_call func (retries - 1) delay ?w2)) = trace ?w2 @ evs"
          "1 \<le> invocations evs" "invocations evs \<le> nat (retries - 1) + 1" "sleeps evs \<le> nat (retries - 1)"
          by blast
        have n: "nat retries = Suc (nat (retries - 1))" using pos by simp
        show ?thesis
          using evs by (intro exI [of _ "Invoked # Slept delay # evs"]) (simp add: eq n)
      qed
    qed
  qed
qed

text \<open>
  C10. \<^verbatim>\<open>safe_notion_call\<close> is total (its recursion is on \<open>retries\<close>, which the
  termination proof of the definition shows to decrease while it is positive). For a
  non-negative retries count the call returns, having invoked the operation at most
  \<open>retries + 1\<close> times and slept at most \<open>retries\<close> times.
\<close>

theorem safe_notion_call_returns_bounded:
  assumes "0 \<le> retries"
  shows "\<exists>r w' evs. safe_notion_call func retries delay w = (r, w')
      \<and> trace w' = trace w @ evs
      \<and> int (invocations evs) \<le> retries + 1 \<and> int (sleeps evs) \<le> retries"
proof -
  obtain evs where evs:
    "trace (snd (safe_notion_call func retries delay w)) = trace w @ evs"
    "invocations evs \<le> nat retries + 1" "sleeps evs \<le> nat retries"
    using safe_notion_call_trace [of func retries delay w] by blast
  have "int (invocations evs) \<le> retries + 1" "int (sleeps evs) \<le> retries"
    using evs(2,3) assms by linarith+
  with evs(1) show ?thesis
    by (intro exI [of _ "fst (safe_notion_call func retries delay w)"]
          exI [of _ "snd (safe_notion_call func retries delay w)"] exI [of _ evs]) simp
qed

theorem safe_notion_call_returns_bounded_witness:
  "(0::int) \<le> 2 \<and>
   (\<exists>r w' evs.
      safe_notion_call (\<lambda>s::nat. (Inl (Exn ''E'' ''down'') :: exn + json, Suc s)) 2 2
        \<lparr>st = 0, trace = []\<rparr> = (r, w')
      \<and> trace w' = trace \<lparr>st = 0::nat, trace = []\<rparr> @ evs
      \<and> int (invocations evs) \<le> 2 + 1 \<and> int (sleeps evs) \<le> 2)"
  using safe_notion_call_returns_bounded
    [of 2 "\<lambda>s::nat. (Inl (Exn ''E'' ''down'') :: exn + json, Suc s)" 2 "\<lparr>st = 0, trace = []\<rparr>"]
  by simp

section \<open>The handlers and the wrapper\<close>

lemma safe_notion_call_once:
  assumes "0 \<le> delay"
  shows "safe_notion_call func 1 delay w =
    (case func (st w) of
       (Inr v, s1) \<Rightarrow> (Inr v, w\<lparr>st := s1, trace := trace w @ [Invoked]\<rparr>)
     | (Inl e1, s1) \<Rightarrow>
         if is_Exception e1 then
           (case func s1 of
              (r2, s2) \<Rightarrow> (r2, w\<lparr>st := s2, trace := trace w @ [Invoked, Slept delay, Invoked]\<rparr>))
         else (Inl e1, w\<lparr>st := s1, trace := trace w @ [Invoked]\<rparr>))"
proof -
  obtain r s1 where f: "func (st w) = (r, s1)" by (cases "func (st w)")
  show ?thesis
  proof (cases r)
    case (Inr v)
    then show ?thesis
      by (simp add: safe_notion_call.simps [of func 1 delay w] invoke_def f)
  next
    case (Inl e1)
    show ?thesis
    proof (cases "is_Exception e1")
      case False
      then show ?thesis
        by (simp add: safe_notion_call.simps [of func 1 delay w] invoke_def f Inl)
    next
      case True
      obtain r2 s2 where f2: "func s1 = (r2, s2)" by (cases "func s1")
      let ?w2 = "w\<lparr>st := s1, trace := trace w @ [Invoked, Slept delay]\<rparr>"
      have "safe_notion_call func 1 delay w = safe_notion_call func 0 delay ?w2"
        using assms True
        by (simp add: safe_notion_call.simps [of func 1 delay w] invoke_def f Inl sleep_def)
      also have "\<dots> = (r2, w\<lparr>st := s2, trace := trace w @ [Invoked, Slept delay, Invoked]\<rparr>)"
        by (cases r2) (simp_all add: safe_notion_call.simps [of func 0 delay ?w2] invoke_def f2)
      finally show ?thesis by (simp add: f Inl f2 True)
    qed
  qed
qed

text \<open>One request through the wrapper, as the handlers call it.\<close>

lemma safe_notion_call_request:
  "safe_notion_call (notion_request notion c) 1 2 w =
    (case notion (st w @ [c]) of
       Inr v \<Rightarrow> (Inr v, w\<lparr>st := st w @ [c], trace := trace w @ [Invoked]\<rparr>)
     | Inl e1 \<Rightarrow>
         if is_Exception e1 then
           (notion (st w @ [c, c]),
            w\<lparr>st := st w @ [c, c], trace := trace w @ [Invoked, Slept 2, Invoked]\<rparr>)
         else (Inl e1, w\<lparr>st := st w @ [c], trace := trace w @ [Invoked]\<rparr>))"
  by (simp add: safe_notion_call_once notion_request_def split: sum.splits)

lemma create_table_valid:
  assumes "map_of kvs ''table'' = Some table_name" "truthy table_name"
    and "map_of kvs ''fields'' = Some fields'" "truthy fields'"
  shows "create_table notion PAGE_ID (Inr (JObj kvs)) w =
    (case create_table_try notion PAGE_ID table_name fields' w of
       (Inr resp, w') \<Rightarrow> (resp, w')
     | (Inl e, w') \<Rightarrow> (except_Exception e, w'))"
proof -
  have "kvs \<noteq> []" using assms(1) by auto
  then show ?thesis using assms by (simp add: create_table_def)
qed



lemma py_items_Exception: "py_items v = Inl e \<Longrightarrow> is_Exception e"
  by (cases v) (auto simp add: no_attribute_def)




text \<open>
  C7 (as amended). A create-collection request whose body is a JSON object, or a falsy
  value (which the handler takes for an empty object), and has no \<^verbatim>\<open>table\<close> (or a falsy
  one), or whose \<^verbatim>\<open>fields\<close> is missing or falsy, is answered 400 with the handler's
  message. A truthy body that is not an object has no \<^verbatim>\<open>get\<close>: the \<^verbatim>\<open>AttributeError\<close>
  leaves the view function. A truthy \<^verbatim>\<open>fields\<close> that is not a mapping has no
  \<^verbatim>\<open>items\<close>: that is answered 500. In each of these cases the world is as before: no
  request was sent to the vendor, nothing was slept.
\<close>

theorem create_table_missing_400:
  "((\<not> truthy j
      \<or> (\<exists>kvs. j = JObj kvs
            \<and> (map_of kvs ''table'' = None
               \<or> (\<exists>t. map_of kvs ''table'' = Some t \<and> \<not> truthy t)
               \<or> map_of kvs ''fields'' = None
               \<or> (\<exists>f. map_of kvs ''fields'' = Some f \<and> \<not> truthy f)))) \<longrightarrow>
     create_table notion PAGE_ID (Inr j) w =
       (Response 400 (JObj [(''error'', JStr ''Missing table name or fields'')]), w))
   \<and> (truthy j \<and> (\<forall>kvs. j \<noteq> JObj kvs) \<longrightarrow>
     create_table notion PAGE_ID (Inr j) w =
       (Unhandled (Exn ''AttributeError''
          (quoted (type_name j) @ '' object has no attribute '' @ quoted ''get'')), w))
   \<and> ((\<exists>kvs t f. j = JObj kvs \<and> map_of kvs ''table'' = Some t \<and> truthy t
          \<and> map_of kvs ''fields'' = Some f \<and> truthy f \<and> (\<forall>items. f \<noteq> JObj items)
          \<and> msg = quoted (type_name f) @ '' object has no attribute '' @ quoted ''items'') \<longrightarrow>
     create_table notion PAGE_ID (Inr j) w = (Response 500 (JObj [(''error'', JStr msg)]), w))"
proof (intro conjI impI)
  assume a: "\<not> truthy j
      \<or> (\<exists>kvs. j = JObj kvs
            \<and> (map_of kvs ''table'' = None
               \<or> (\<exists>t. map_of kvs ''table'' = Some t \<and> \<not> truthy t)
               \<or> map_of kvs ''fields'' = None
               \<or> (\<exists>f. map_of kvs ''fields'' = Some f \<and> \<not> truthy f)))"
  show "create_table notion PAGE_ID (Inr j) w =
      (Response 400 (JObj [(''error'', JStr ''Missing table name or fields'')]), w)"
  proof (cases "truthy j")
    case False
    then show ?thesis by (simp add: create_table_def error_body_def)
  next
    case True
    with a obtain kvs where j: "j = JObj kvs"
      and kvs: "map_of kvs ''table'' = None
         \<or> (\<exists>t. map_of kvs ''table'' = Some t \<and> \<not> truthy t)
         \<or> map_of kvs ''fields'' = None
         \<or> (\<exists>f. map_of kvs ''fields'' = Some f \<and> \<not> truthy f)"
      by blast
    from True j have "kvs \<noteq> []" by simp
    with kvs show ?thesis
      by (auto simp add: j create_table_def error_body_def split: option.splits)
  qed
next
  assume "truthy j \<and> (\<forall>kvs. j \<noteq> JObj kvs)"
  then show "create_table notion PAGE_ID (Inr j) w =
      (Unhandled (Exn ''AttributeError''
         (quoted (type_name j) @ '' object has no attribute '' @ quoted ''get'')), w)"
    by (cases j) (simp_all add: create_table_def no_attribute_def)
next
  assume "\<exists>kvs t f. j = JObj kvs \<and> map_of kvs ''table'' = Some t \<and> truthy t
      \<and> map_of kvs ''fields'' = Some f \<and> truthy f \<and> (\<forall>items. f \<noteq> JObj items)
      \<and> msg = quoted (type_name f) @ '' object has no attribute '' @ quoted ''items''"
  then obtain kvs t f where j: "j = JObj kvs"
    and t: "map_of kvs ''table'' = Some t" "truthy t"
    and f: "map_of kvs ''fields'' = Some f" "truthy f" "\<forall>items. f \<noteq> JObj items"
    and msg: "msg = quoted (type_name f) @ '' object has no attribute '' @ quoted ''items''"
    by blast
  have "create_table_try notion PAGE_ID t f w = (Inl (no_attribute f ''items''), w)"
    using f(3) by (cases f) (simp_all add: create_table_try_def)
  then show "create_table notion PAGE_ID (Inr j) w = (Response 500 (JObj [(''error'', JStr msg)]), w)"
    by (simp add: j create_table_valid [OF t f(1,2)] except_Exception_def no_attribute_def
        error_body_def msg)
qed

theorem create_table_missing_400_witness:
  "map_of [(''table'', JStr ''Trees''), (''fields'', JObj [])] ''fields'' = Some (JObj [])
   \<and> \<not> truthy (JObj [])
   \<and> create_table (\<lambda>sent. Inr (JObj [(''id'', JStr ''db-7'')])) (JStr ''page-1'')
        (Inr (JObj [(''table'', JStr ''Trees''), (''fields'', JObj [])]))
        \<lparr>st = [], trace = []\<rparr>
     = (Response 400 (JObj [(''error'', JStr ''Missing table name or fields'')]),
        \<lparr>st = [], trace = []\<rparr>)
   \<and> map_of [(''fields'', JObj [(''Tree'', JStr ''title'')])] ''table'' = None
   \<and> create_table (\<lambda>sent. Inr (JObj [(''id'', JStr ''db-7'')])) (JStr ''page-1'')
        (Inr (JObj [(''fields'', JObj [(''Tree'', JStr ''title'')])]))
        \<lparr>st = [], trace = []\<rparr>
     = (Response 400 (JObj [(''error'', JStr ''Missing table name or fields'')]),
        \<lparr>st = [], trace = []\<rparr>)
   \<and> \<not> truthy (JArr [])
   \<and> create_table (\<lambda>sent. Inr (JObj [(''id'', JStr ''db-7'')])) (JStr ''page-1'')
        (Inr (JArr [])) \<lparr>st = [], trace = []\<rparr>
     = (Response 400 (JObj [(''error'', JStr ''Missing table name or fields'')]),
        \<lparr>st = [], trace = []\<rparr>)
   \<and> truthy (JStr ''table'')
   \<and> create_table (\<lambda>sent. Inr (JObj [(''id'', JStr ''db-7'')])) (JStr ''page-1'')
        (Inr (JStr ''table'')) \<lparr>st = [], trace = []\<rparr>
     = (Unhandled (Exn ''AttributeError''
          (quoted ''str'' @ '' object has no attribute '' @ quoted ''get'')),
        \<lparr>st = [], trace = []\<rparr>)
   \<and> create_table (\<lambda>sent. Inr (JObj [(''id'', JStr ''db-7'')])) (JStr ''page-1'')
        (Inr (JObj [(''table'', JStr ''Trees''), (''fields'', JNum 5)])) \<lparr>st = [], trace = []\<rparr>
     = (Response 500 (JObj [(''error'', JStr
          (quoted ''int'' @ '' object has no attribute '' @ quoted ''items''))]),
        \<lparr>st = [], trace = []\<rparr>)"
  using
    create_table_missing_400 [of "JObj [(''table'', JStr ''Trees''), (''fields'', JObj [])]"
      "\<lambda>sent. Inr (JObj [(''id'', JStr ''db-7'')])" "JStr ''page-1''" "\<lparr>st = [], trace = []\<rparr>" "[]"]
    create_table_missing_400 [of "JObj [(''fields'', JObj [(''Tree'', JStr ''title'')])]"
      "\<lambda>sent. Inr (JObj [(''id'', JStr ''db-7'')])" "JStr ''page-1''" "\<lparr>st = [], trace = []\<rparr>" "[]"]
    create_table_missing_400 [of "JArr []"
      "\<lambda>sent. Inr (JObj [(''id'', JStr ''db-7'')])" "JStr ''page-1''" "\<lparr>st = [], trace = []\<rparr>" "[]"]
    create_table_missing_400 [of "JStr ''table''"
      "\<lambda>sent. Inr (JObj [(''id'', JStr ''db-7'')])" "JStr ''page-1''" "\<lparr>st = [], trace = []\<rparr>" "[]"]
    create_table_missing_400 [of "JObj [(''table'', JStr ''Trees''), (''fields'', JNum 5)]"
      "\<lambda>sent. Inr (JObj [(''id'', JStr ''db-7'')])" "JStr ''page-1''" "\<lparr>st = [], trace = []\<rparr>"
      "quoted ''int'' @ '' object has no attribute '' @ quoted ''items''"]
  by simp

text \<open>
  C7 as stated fails: the body \<^verbatim>\<open>[1]\<close> has no \<^verbatim>\<open>table\<close>, and the handler does not
  answer 400: \<^verbatim>\<open>data.get\<close> raises outside the \<^verbatim>\<open>try\<close> statement. So does a body with
  a table name whose \<^verbatim>\<open>fields\<close> is the string \<^verbatim>\<open>abc\<close>, no mapping: it is answered 500.
\<close>

theorem list_body_is_not_answered_400:
  "create_table (\<lambda>sent. Inr (JObj [(''id'', JStr ''db-7'')])) (JStr ''page-1'')
     (Inr (JArr [JNum 1])) \<lparr>st = [], trace = []\<rparr>
   = (Unhandled (Exn ''AttributeError''
        (quoted ''list'' @ '' object has no attribute '' @ quoted ''get'')),
      \<lparr>st = [], trace = []\<rparr>)
   \<and> create_table (\<lambda>sent. Inr (JObj [(''id'', JStr ''db-7'')])) (JStr ''page-1'')
     (Inr (JObj [(''table'', JStr ''T''), (''fields'', JStr ''abc'')])) \<lparr>st = [], trace = []\<rparr>
   = (Response 500 (JObj [(''error'', JStr
        (quoted ''str'' @ '' object has no attribute '' @ quoted ''items''))]),
      \<lparr>st = [], trace = []\<rparr>)"
  by (simp add: create_table_def create_table_try_def no_attribute_def except_Exception_def
      error_body_def)

text \<open>
  C9. The body \<^verbatim>\<open>null\<close> is parsed to \<^verbatim>\<open>None\<close>. \<^verbatim>\<open>create_table\<close> replaces it with an
  empty dict and answers 400; the other three handlers call \<^verbatim>\<open>None.get\<close>, and the
  \<^verbatim>\<open>AttributeError\<close> leaves the view function. An exception raised by
  \<^verbatim>\<open>get_json\<close> itself leaves all four.
\<close>

theorem null_body_not_tolerated:
  "create_table notion PAGE_ID (Inr JNull) w =
     (Response 400 (JObj [(''error'', JStr ''Missing table name or fields'')]), w)
   \<and> insert_row notion (Inr JNull) w =
     (Unhandled (Exn ''AttributeError''
        (quoted ''NoneType'' @ '' object has no attribute '' @ quoted ''get'')), w)
   \<and> update_table notion (Inr JNull) w =
     (Unhandled (Exn ''AttributeError''
        (quoted ''NoneType'' @ '' object has no attribute '' @ quoted ''get'')), w)
   \<and> get_rows notion (Inr JNull) w =
     (Unhandled (Exn ''AttributeError''
        (quoted ''NoneType'' @ '' object has no attribute '' @ quoted ''get'')), w)
   \<and> create_table notion PAGE_ID (Inl e) w = (Unhandled e, w)
   \<and> insert_row notion (Inl e) w = (Unhandled e, w)
   \<and> update_table notion (Inl e) w = (Unhandled e, w)
   \<and> get_rows notion (Inl e) w = (Unhandled e, w)"
  by (simp add: create_table_def insert_row_def update_table_def get_rows_def error_body_def
      no_attribute_def)

theorem null_body_not_tolerated_witness:
  "create_table (\<lambda>sent. Inr (JObj [(''id'', JStr ''db-7'')])) (JStr ''page-1'') (Inr JNull)
     \<lparr>st = [], trace = []\<rparr>
     = (Response 400 (JObj [(''error'', JStr ''Missing table name or fields'')]),
        \<lparr>st = [], trace = []\<rparr>)
   \<and> insert_row (\<lambda>sent. Inr (JObj [(''id'', JStr ''db-7'')])) (Inr JNull)
     \<lparr>st = [], trace = []\<rparr>
     = (Unhandled (Exn ''AttributeError''
          (quoted ''NoneType'' @ '' object has no attribute '' @ quoted ''get'')),
        \<lparr>st = [], trace = []\<rparr>)
   \<and> get_rows (\<lambda>sent. Inr (JObj [(''id'', JStr ''db-7'')])) (Inr JNull)
     \<lparr>st = [], trace = []\<rparr>
     = (Unhandled (Exn ''AttributeError''
          (quoted ''NoneType'' @ '' object has no attribute '' @ quoted ''get'')),
        \<lparr>st = [], trace = []\<rparr>)"
  using null_body_not_tolerated
    [of "\<lambda>sent. Inr (JObj [(''id'', JStr ''db-7'')])" "JStr ''page-1''"
        "\<lparr>st = [], trace = []\<rparr>" "Exn ''BadRequest'' ''400 Bad Request''"]
  by simp

section \<open>The row value encoder\<close>

lemma lower_char_eq_iff:
  assumes "lower_char d = d"
  shows "lower_char c = d \<longleftrightarrow> spec_same_letter c d"
proof -
  have d: "\<not> (65 \<le> (of_char d :: nat) \<and> (of_char d :: nat) \<le> 90)"
  proof
    assume up: "65 \<le> (of_char d :: nat) \<and> (of_char d :: nat) \<le> 90"
    then have "lower_char d = char_of ((of_char d :: nat) + 32)"
      by (simp add: lower_char_def)
    with assms have "(of_char (char_of ((of_char d :: nat) + 32) :: char) :: nat) = of_char d"
      by simp
    moreover have "((of_char d :: nat) + 32) mod 256 = of_char d + 32" using up by simp
    ultimately show False by simp
  qed
  show ?thesis
  proof (cases "65 \<le> (of_char c :: nat) \<and> (of_char c :: nat) \<le> 90")
    case True
    then have l: "lower_char c = char_of ((of_char c :: nat) + 32)"
      by (simp add: lower_char_def)
    have m: "((of_char c :: nat) + 32) mod 256 = of_char c + 32" using True by simp
    have "char_of ((of_char c :: nat) + 32) = d \<longleftrightarrow> (of_char c :: nat) + 32 = of_char d"
    proof
      assume "char_of ((of_char c :: nat) + 32) = d"
      then have "(of_char (char_of ((of_char c :: nat) + 32) :: char) :: nat) = of_char d" by simp
      then show "(of_char c :: nat) + 32 = of_char d" using m by simp
    next
      assume "(of_char c :: nat) + 32 = of_char d"
      then show "char_of ((of_char c :: nat) + 32) = d" by simp
    qed
    moreover have "c \<noteq> d" using True d by auto
    ultimately show ?thesis using True d l by (auto simp add: spec_same_letter_def)
  next
    case False
    then have "lower_char c = c" by (auto simp add: lower_char_def Let_def)
    then show ?thesis using False d by (auto simp add: spec_same_letter_def)
  qed
qed

lemma lower_eq_iff:
  assumes "lower t = t"
  shows "lower k = t \<longleftrightarrow> spec_named t k"
  using assms
proof (induction k arbitrary: t)
  case Nil
  then show ?case by (auto simp add: lower_def spec_named_def)
next
  case (Cons c k)
  show ?case
  proof (cases t)
    case Nil
    then show ?thesis by (simp add: lower_def spec_named_def)
  next
    case (Cons d t')
    with Cons.prems have d: "lower_char d = d" and t': "lower t' = t'"
      by (simp_all add: lower_def)
    from Cons.IH [OF t'] lower_char_eq_iff [OF d, of c] Cons show ?thesis
      by (simp add: lower_def spec_named_def)
  qed
qed

lemma lower_tree: "lower ''tree'' = ''tree''"
  by (simp add: lower_def lower_char_def)

lemma lower_status: "lower ''status'' = ''status''"
  by (simp add: lower_def lower_char_def)

text \<open>
  C8. The encoder branches on the field name whatever its letter case: a field named
  \<^verbatim>\<open>tree\<close> gives a title value wrapping the scalar, a field named \<^verbatim>\<open>status\<close> a
  select value naming it, any other field a rich-text value wrapping it. This holds
  for every value, scalar strings among them.
\<close>

theorem encode_value_by_name:
  "(spec_named ''tree'' k \<longrightarrow>
      encode_value k v = JObj [(''title'', JArr [JObj [(''text'', JObj [(''content'', v)])]])])
   \<and> (spec_named ''status'' k \<longrightarrow>
      encode_value k v = JObj [(''select'', JObj [(''name'', v)])])
   \<and> (\<not> spec_named ''tree'' k \<and> \<not> spec_named ''status'' k \<longrightarrow>
      encode_value k v = JObj [(''rich_text'', JArr [JObj [(''text'', JObj [(''content'', v)])]])])"
proof -
  have t: "lower k = ''tree'' \<longleftrightarrow> spec_named ''tree'' k" by (rule lower_eq_iff [OF lower_tree])
  have s: "lower k = ''status'' \<longleftrightarrow> spec_named ''status'' k" by (rule lower_eq_iff [OF lower_status])
  show ?thesis unfolding t [symmetric] s [symmetric]
    by (auto simp add: encode_value_def)
qed

theorem encode_value_by_name_witness:
  "spec_named ''tree'' ''Tree''
   \<and> encode_value ''Tree'' (JStr ''Oak'')
       = JObj [(''title'', JArr [JObj [(''text'', JObj [(''content'', JStr ''Oak'')])]])]
   \<and> spec_named ''status'' ''STATUS''
   \<and> encode_value ''STATUS'' (JStr ''Done'') = JObj [(''select'', JObj [(''name'', JStr ''Done'')])]
   \<and> \<not> spec_named ''tree'' ''Notes'' \<and> \<not> spec_named ''status'' ''Notes''
   \<and> encode_value ''Notes'' (JStr ''x'')
       = JObj [(''rich_text'', JArr [JObj [(''text'', JObj [(''content'', JStr ''x'')])]])]"
  using encode_value_by_name [of "''Tree''" "JStr ''Oak''"]
    encode_value_by_name [of "''STATUS''" "JStr ''Done''"]
    encode_value_by_name [of "''Notes''" "JStr ''x''"]
  by (simp add: spec_named_def spec_same_letter_def)

section \<open>The field-type mapper\<close>

lemma update_fresh:
  "k \<notin> fst ` set al \<Longrightarrow> AList.update k v al = al @ [(k, v)]"
  by (induction al) auto

lemma fold_update_distinct:
  "distinct (map fst acc @ map fst items) \<Longrightarrow>
   fold (\<lambda>(k, v) props. AList.update k (f k v) props) items acc
     = acc @ map (\<lambda>(k, v). (k, f k v)) items"
proof (induction items arbitrary: acc)
  case Nil
  then show ?case by simp
next
  case (Cons kv items)
  obtain k v where kv: "kv = (k, v)" by (cases kv)
  from Cons.prems have fresh: "k \<notin> fst ` set acc" by (auto simp add: kv)
  from Cons.prems have "distinct (map fst (acc @ [(k, f k v)]) @ map fst items)"
    by (auto simp add: kv)
  from Cons.IH [OF this] show ?case
    by (simp add: kv update_fresh [OF fresh])
qed

text \<open>
  C3 (as amended). In both handlers the declared kind \<^verbatim>\<open>"title"\<close> gives a title
  fragment, \<^verbatim>\<open>"rich_text"\<close> a rich-text fragment, \<^verbatim>\<open>"select"\<close> a select fragment, which
  in \<^verbatim>\<open>update_table\<close> carries an empty options list; every other declared kind, of
  any JSON type, gives a rich-text fragment, and no field is rejected: for a request
  with distinct field names the update payload has one fragment per declared field.
\<close>

theorem field_type_mapper:
  "create_table_property (JStr ''title'') = JObj [(''title'', JObj [])]
   \<and> create_table_property (JStr ''rich_text'') = JObj [(''rich_text'', JObj [])]
   \<and> create_table_property (JStr ''select'') = JObj [(''select'', JObj [])]
   \<and> update_table_property (JStr ''title'') = JObj [(''title'', JObj [])]
   \<and> update_table_property (JStr ''rich_text'') = JObj [(''rich_text'', JObj [])]
   \<and> update_table_property (JStr ''select'') = JObj [(''select'', JObj [(''options'', JArr [])])]
   \<and> (ftype \<noteq> JStr ''title'' \<and> ftype \<noteq> JStr ''rich_text'' \<and> ftype \<noteq> JStr ''select'' \<longrightarrow>
        create_table_property ftype = JObj [(''rich_text'', JObj [])]
        \<and> update_table_property ftype = JObj [(''rich_text'', JObj [])])
   \<and> (distinct (map fst items) \<longrightarrow>
        update_table_properties items = map (\<lambda>(name, t). (name, update_table_property t)) items)"
  using fold_update_distinct [of "[]" items "\<lambda>name t. update_table_property t"]
  by (simp add: create_table_property_def update_table_property_def update_table_properties_def)

theorem field_type_mapper_witness:
  "JNum 7 \<noteq> JStr ''title'' \<and> JNum 7 \<noteq> JStr ''rich_text'' \<and> JNum 7 \<noteq> JStr ''select''
   \<and> create_table_property (JNum 7) = JObj [(''rich_text'', JObj [])]
   \<and> update_table_property (JNum 7) = JObj [(''rich_text'', JObj [])]
   \<and> distinct (map fst [(''Tree'', JStr ''title''), (''Status'', JStr ''select''), (''Age'', JNum 7)])
   \<and> update_table_properties [(''Tree'', JStr ''title''), (''Status'', JStr ''select''), (''Age'', JNum 7)]
       = [(''Tree'', JObj [(''title'', JObj [])]),
          (''Status'', JObj [(''select'', JObj [(''options'', JArr [])])]),
          (''Age'', JObj [(''rich_text'', JObj [])])]"
  using field_type_mapper
    [of "JNum 7" "[(''Tree'', JStr ''title''), (''Status'', JStr ''select''), (''Age'', JNum 7)]"]
  by simp

text \<open>
  C3 as stated fails: the kinds are compared with the strings \<^verbatim>\<open>"rich_text"\<close> and
  \<^verbatim>\<open>"select"\<close>; a field declared \<^verbatim>\<open>"single-select"\<close> falls to the last branch and
  gets a rich-text fragment.
\<close>

theorem single_select_is_not_select:
  "create_table_property (JStr ''single-select'') = JObj [(''rich_text'', JObj [])]
   \<and> update_table_property (JStr ''single-select'') = JObj [(''rich_text'', JObj [])]
   \<and> create_table_property (JStr ''single-select'') \<noteq> JObj [(''select'', JObj [])]"
  by (simp add: create_table_property_def update_table_property_def)

section \<open>The row decoder\<close>

lemma decode_props_total:
  assumes "\<forall>kv \<in> set props. \<exists>x. decode_value (snd kv) = Inr x"
  shows "decode_props props row =
    Inr (fold (\<lambda>(key, v) r. AList.update key (projr (decode_value v)) r) props row)"
  using assms
proof (induction props arbitrary: row)
  case Nil
  then show ?case by simp
next
  case (Cons kv props)
  obtain key v where kv: "kv = (key, v)" by (cases kv)
  from Cons.prems obtain x where x: "decode_value v = Inr x" by (auto simp add: kv)
  from Cons.prems have "\<forall>kv \<in> set props. \<exists>x. decode_value (snd kv) = Inr x" by simp
  from Cons.IH [OF this] show ?case by (simp add: kv x)
qed

text \<open>
  C5 (as amended). For a property that has a \<^verbatim>\<open>type\<close>: a title or rich-text property
  whose list of runs is there and empty decodes to the empty string, and so does a
  select property whose option is there and unset; any other kind decodes to
  \<^verbatim>\<open>[unsupported type]\<close>; a first run with \<^verbatim>\<open>text.content\<close>, or an option with a
  \<^verbatim>\<open>name\<close>, decodes to that content or name. When the sub-field named by the kind is
  absent the decoder raises \<^verbatim>\<open>KeyError\<close>. A property map with distinct names, each of
  whose properties decodes, gives a row with one entry per property, in order.
\<close>

theorem decode_value_cases:
  assumes "map_of kv ''type'' = Some t"
  shows
    "(t = JStr ''title'' \<and> map_of kv ''title'' = Some runs \<and> \<not> truthy runs \<longrightarrow>
        decode_value (JObj kv) = Inr (JStr []))
     \<and> (t = JStr ''rich_text'' \<and> map_of kv ''rich_text'' = Some runs \<and> \<not> truthy runs \<longrightarrow>
        decode_value (JObj kv) = Inr (JStr []))
     \<and> (t = JStr ''select'' \<and> map_of kv ''select'' = Some opt \<and> \<not> truthy opt \<longrightarrow>
        decode_value (JObj kv) = Inr (JStr []))
     \<and> (t \<noteq> JStr ''title'' \<and> t \<noteq> JStr ''rich_text'' \<and> t \<noteq> JStr ''select'' \<longrightarrow>
        decode_value (JObj kv) = Inr (JStr ''[unsupported type]''))
     \<and> (t = JStr ''title'' \<and> map_of kv ''title'' = Some (JArr (JObj run # rest))
          \<and> map_of run ''text'' = Some (JObj txt) \<and> map_of txt ''content'' = Some c \<longrightarrow>
        decode_value (JObj kv) = Inr c)
     \<and> (t = JStr ''rich_text'' \<and> map_of kv ''rich_text'' = Some (JArr (JObj run # rest))
          \<and> map_of run ''text'' = Some (JObj txt) \<and> map_of txt ''content'' = Some c \<longrightarrow>
        decode_value (JObj kv) = Inr c)
     \<and> (t = JStr ''select'' \<and> map_of kv ''select'' = Some (JObj sel)
          \<and> map_of sel ''name'' = Some n \<longrightarrow>
        decode_value (JObj kv) = Inr n)
     \<and> (t = JStr ''title'' \<and> map_of kv ''title'' = None \<longrightarrow>
        decode_value (JObj kv) = Inl (Exn ''KeyError'' (quoted ''title'')))
     \<and> (t = JStr ''rich_text'' \<and> map_of kv ''rich_text'' = None \<longrightarrow>
        decode_value (JObj kv) = Inl (Exn ''KeyError'' (quoted ''rich_text'')))
     \<and> (t = JStr ''select'' \<and> map_of kv ''select'' = None \<longrightarrow>
        decode_value (JObj kv) = Inl (Exn ''KeyError'' (quoted ''select'')))
     \<and> ((\<forall>p \<in> set props. \<exists>x. decode_value (snd p) = Inr x) \<and> distinct (map fst props) \<longrightarrow>
        decode_props props [] = Inr (map (\<lambda>(key, v). (key, projr (decode_value v))) props))"
proof -
  have sel: "map_of sel ''name'' = Some n \<Longrightarrow> truthy (JObj sel)" by auto
  have row: "decode_props props [] = Inr (map (\<lambda>(key, v). (key, projr (decode_value v))) props)"
    if "\<forall>p \<in> set props. \<exists>x. decode_value (snd p) = Inr x" "distinct (map fst props)"
    using decode_props_total [OF that(1), of "[]"]
      fold_update_distinct [of "[]" props "\<lambda>key v. projr (decode_value v)"] that(2)
    by simp
  show ?thesis
    using assms sel row
    by (auto simp add: decode_value_def bind_exn_def first_content_def)
qed

theorem decode_value_cases_witness:
  "map_of [(''type'', JStr ''title''), (''title'', JArr [])] ''type'' = Some (JStr ''title'')
   \<and> decode_value (JObj [(''type'', JStr ''title''), (''title'', JArr [])]) = Inr (JStr [])
   \<and> decode_value (JObj [(''type'', JStr ''select''), (''select'', JNull)]) = Inr (JStr [])
   \<and> decode_value (JObj [(''type'', JStr ''number''), (''number'', JNum 3)])
       = Inr (JStr ''[unsupported type]'')
   \<and> decode_value (JObj [(''type'', JStr ''rich_text''),
         (''rich_text'', JArr [JObj [(''text'', JObj [(''content'', JStr ''x'')])]])])
       = Inr (JStr ''x'')
   \<and> decode_props
         [(''Name'', JObj [(''type'', JStr ''title''), (''title'', JArr [])]),
          (''Count'', JObj [(''type'', JStr ''number''), (''number'', JNum 3)])] []
       = Inr [(''Name'', JStr []), (''Count'', JStr ''[unsupported type]'')]"
  using
    decode_value_cases [of "[(''type'', JStr ''title''), (''title'', JArr [])]" "JStr ''title''"
      "JArr []" JNull "[]" "[]" "[]" JNull "[]" JNull
      "[(''Name'', JObj [(''type'', JStr ''title''), (''title'', JArr [])]),
        (''Count'', JObj [(''type'', JStr ''number''), (''number'', JNum 3)])]"]
    decode_value_cases [of "[(''type'', JStr ''select''), (''select'', JNull)]" "JStr ''select''"
      JNull JNull "[]" "[]" "[]" JNull "[]" JNull "[]"]
    decode_value_cases [of "[(''type'', JStr ''number''), (''number'', JNum 3)]" "JStr ''number''"
      JNull JNull "[]" "[]" "[]" JNull "[]" JNull "[]"]
    decode_value_cases [of "[(''type'', JStr ''rich_text''),
         (''rich_text'', JArr [JObj [(''text'', JObj [(''content'', JStr ''x'')])]])]"
      "JStr ''rich_text''" JNull JNull "[(''text'', JObj [(''content'', JStr ''x'')])]" "[]"
      "[(''content'', JStr ''x'')]" "JStr ''x''" "[]" JNull "[]"]
  by (simp add: decode_value_def bind_exn_def)

text \<open>
  C5 as stated fails: the decoder is not total. A title property without the
  \<^verbatim>\<open>title\<close> sub-field raises \<^verbatim>\<open>KeyError\<close>, and so does one whose first run has no
  \<^verbatim>\<open>text\<close> (a mention); \<^verbatim>\<open>get_rows\<close> answers 500.
\<close>

theorem title_without_runs_field_raises:
  "decode_value (JObj [(''id'', JStr ''title''), (''type'', JStr ''title'')])
     = Inl (Exn ''KeyError'' (quoted ''title''))
   \<and> decode_value (JObj [(''type'', JStr ''title''),
        (''title'', JArr [JObj [(''type'', JStr ''mention''), (''plain_text'', JStr ''@Ann'')]])])
     = Inl (Exn ''KeyError'' (quoted ''text''))
   \<and> decode_row (JObj [(''properties'',
        JObj [(''Name'', JObj [(''id'', JStr ''title''), (''type'', JStr ''title'')])])])
     = Inl (Exn ''KeyError'' (quoted ''title''))
   \<and> get_rows
        (\<lambda>sent. Inr (JObj [(''results'', JArr [JObj [(''properties'',
           JObj [(''Name'', JObj [(''id'', JStr ''title''), (''type'', JStr ''title'')])])]])]))
        (Inr (JObj [(''database_id'', JStr ''db-7'')])) \<lparr>st = [], trace = []\<rparr>
     = (Response 500 (JObj [(''error'', JStr (quoted ''title''))]),
        \<lparr>st = [DatabasesQuery (JStr ''db-7'')], trace = [Invoked]\<rparr>)"
  by (simp add: decode_value_def decode_row_def bind_exn_def get_rows_def get_rows_try_def
      query_db_def safe_notion_call_request error_body_def first_content_def
      except_Exception_def)

section \<open>Encoding and decoding\<close>

lemma enriches_JStr: "enriches x (JStr s) \<Longrightarrow> x = JStr s"
  by (cases x) simp_all

lemma enriches_JObj:
  assumes "enriches x (JObj b)" and "(k, v) \<in> set b"
  obtains a y where "x = JObj a" and "map_of a k = Some y" and "enriches y v"
proof (cases x)
  case (JObj a)
  with assms have "\<forall>kv \<in> set b.
      case map_of a (fst kv) of None \<Rightarrow> False | Some y \<Rightarrow> enriches y (snd kv)"
    by (simp add: list_all_iff)
  from bspec [OF this assms(2)]
  have "case map_of a k of None \<Rightarrow> False | Some y \<Rightarrow> enriches y v"
    by (simp split: option.splits)
  then show ?thesis using JObj that by (cases "map_of a k") simp_all
qed (use assms in simp_all)

lemma enriches_singleton:
  assumes "enriches x (JArr [v])"
  obtains y where "x = JArr [y]" and "enriches y v"
proof (cases x)
  case (JArr xs)
  with assms have "list_all2 enriches xs [v]" by simp
  then obtain y where "xs = [y]" "enriches y v"
    by (auto simp add: list_all2_Cons2)
  then show ?thesis using JArr that by simp
qed (use assms in simp_all)

lemma enriches_text_content:
  assumes "enriches x (JArr [JObj [(''text'', JObj [(''content'', JStr s)])]])"
  shows "truthy x \<and> first_content x = Inr (JStr s)"
proof -
  from assms obtain run where x: "x = JArr [run]"
    and run: "enriches run (JObj [(''text'', JObj [(''content'', JStr s)])])"
    by (rule enriches_singleton)
  from run obtain ra tx where ra: "run = JObj ra" "map_of ra ''text'' = Some tx"
    and tx: "enriches tx (JObj [(''content'', JStr s)])"
    by (rule enriches_JObj [where k = "''text''"]) simp
  from tx obtain ta cx where ta: "tx = JObj ta" "map_of ta ''content'' = Some cx"
    and "enriches cx (JStr s)"
    by (rule enriches_JObj [where k = "''content''"]) simp
  then have "cx = JStr s" by (simp add: enriches_JStr)
  with x ra ta show ?thesis by (simp add: first_content_def bind_exn_def)
qed

text \<open>One field: the stored form of an encoded string decodes to the string.\<close>

lemma decode_stored_value:
  assumes "stored_as p (encode_value k (JStr s))"
  shows "decode_value p = Inr (JStr s)"
proof -
  consider (tree) "lower k = ''tree''" | (status) "lower k \<noteq> ''tree''" "lower k = ''status''"
    | (other) "lower k \<noteq> ''tree''" "lower k \<noteq> ''status''" by blast
  then show ?thesis
  proof cases
    case tree
    then have e: "encode_value k (JStr s)
        = JObj [(''title'', JArr [JObj [(''text'', JObj [(''content'', JStr s)])]])]"
      by (simp add: encode_value_def)
    from assms obtain sp where p: "p = JObj sp" by (cases p) (simp_all add: e)
    from assms have ty: "map_of sp ''type'' = Some (JStr ''title'')"
      and en: "enriches (JObj sp) (JObj [(''title'', JArr [JObj [(''text'', JObj [(''content'', JStr s)])]])])"
      by (simp_all add: e p)
    from en obtain a x where "JObj sp = JObj a" "map_of a ''title'' = Some x"
      and x: "enriches x (JArr [JObj [(''text'', JObj [(''content'', JStr s)])]])"
      by (rule enriches_JObj [where k = "''title''"]) simp
    then have "map_of sp ''title'' = Some x" by simp
    with ty enriches_text_content [OF x] show ?thesis
      by (simp add: p decode_value_def bind_exn_def)
  next
    case status
    then have e: "encode_value k (JStr s) = JObj [(''select'', JObj [(''name'', JStr s)])]"
      by (simp add: encode_value_def)
    from assms obtain sp where p: "p = JObj sp" by (cases p) (simp_all add: e)
    from assms have ty: "map_of sp ''type'' = Some (JStr ''select'')"
      and en: "enriches (JObj sp) (JObj [(''select'', JObj [(''name'', JStr s)])])"
      by (simp_all add: e p)
    from en obtain a x where "JObj sp = JObj a" "map_of a ''select'' = Some x"
      and x: "enriches x (JObj [(''name'', JStr s)])"
      by (rule enriches_JObj [where k = "''select''"]) simp
    then have sel: "map_of sp ''select'' = Some x" by simp
    from x obtain oa nx where o: "x = JObj oa" "map_of oa ''name'' = Some nx"
      and "enriches nx (JStr s)"
      by (rule enriches_JObj [where k = "''name''"]) simp
    then have "nx = JStr s" by (simp add: enriches_JStr)
    moreover from o have "oa \<noteq> []" by auto
    ultimately show ?thesis
      using ty sel o by (simp add: p decode_value_def bind_exn_def)
  next
    case other
    then have e: "encode_value k (JStr s)
        = JObj [(''rich_text'', JArr [JObj [(''text'', JObj [(''content'', JStr s)])]])]"
      by (simp add: encode_value_def)
    from assms obtain sp where p: "p = JObj sp" by (cases p) (simp_all add: e)
    from assms have ty: "map_of sp ''type'' = Some (JStr ''rich_text'')"
      and en: "enriches (JObj sp)
          (JObj [(''rich_text'', JArr [JObj [(''text'', JObj [(''content'', JStr s)])]])])"
      by (simp_all add: e p)
    from en obtain a x where "JObj sp = JObj a" "map_of a ''rich_text'' = Some x"
      and x: "enriches x (JArr [JObj [(''text'', JObj [(''content'', JStr s)])]])"
      by (rule enriches_JObj [where k = "''rich_text''"]) simp
    then have "map_of sp ''rich_text'' = Some x" by simp
    with ty enriches_text_content [OF x] show ?thesis
      by (simp add: p decode_value_def bind_exn_def)
  qed
qed

text \<open>
  C6. A record of scalar strings, with distinct field names, is encoded by the loop of
  \<^verbatim>\<open>insert_row\<close>. Let the page that comes back have, as its properties, the stored
  form of what was sent, in any order and with the names in any letter case. Then the
  row decoder of \<^verbatim>\<open>get_rows\<close> returns a row for the page, with one entry per property,
  in which every field of the record has its original string under its name, and
  which holds nothing else.
\<close>

theorem insert_then_get_round_trip:
  assumes "distinct (map fst entries)"
    and "distinct (map fst props)"
    and "stored_record props (insert_row_properties (map (\<lambda>(k, s). (k, JStr s)) entries))"
    and "map_of page ''properties'' = Some (JObj props)"
  shows "\<exists>row. decode_row (JObj page) = Inr (JObj row)
    \<and> map fst row = map fst props
    \<and> (\<forall>(k, s) \<in> set entries. \<exists>k'. spec_named k k' \<and> map_of row k' = Some (JStr s))
    \<and> (\<forall>(k', x) \<in> set row. \<exists>(k, s) \<in> set entries. spec_named k k' \<and> x = JStr s)"
proof -
  let ?items = "map (\<lambda>(k, s). (k, JStr s)) entries"
  let ?sent = "map (\<lambda>(k, s). (k, encode_value k (JStr s))) entries"
  let ?row = "map (\<lambda>(key, v). (key, projr (decode_value v))) props"
  have "map fst ?items = map fst entries" by (induction entries) auto
  then have "distinct (map fst ?items)" by (simp only: assms(1))
  then have "insert_row_properties ?items = map (\<lambda>(k, v). (k, encode_value k v)) ?items"
    using fold_update_distinct [of "[]" ?items encode_value]
    by (simp add: insert_row_properties_def)
  also have "\<dots> = ?sent" by (induction entries) auto
  finally have sent: "insert_row_properties ?items = ?sent" .
  from assms(3) have stored:
    "\<forall>ke \<in> set ?sent. \<exists>kp \<in> set props.
        spec_named (fst ke) (fst kp) \<and> stored_as (snd kp) (snd ke)"
    and only: "\<forall>kp \<in> set props. \<exists>ke \<in> set ?sent.
        spec_named (fst ke) (fst kp) \<and> stored_as (snd kp) (snd ke)"
    by (simp_all add: stored_record_def sent list_all_iff list_ex_iff)
  have origin: "\<exists>(k, s) \<in> set entries. spec_named k k' \<and> decode_value p = Inr (JStr s)"
    if "(k', p) \<in> set props" for k' p
  proof -
    from only that obtain ke where "ke \<in> set ?sent" "spec_named (fst ke) k'" "stored_as p (snd ke)"
      by fastforce
    then obtain k s where "(k, s) \<in> set entries" "spec_named k k'"
      "stored_as p (encode_value k (JStr s))" by auto
    then show ?thesis using decode_stored_value by blast
  qed
  then have "\<forall>kp \<in> set props. \<exists>x. decode_value (snd kp) = Inr x" by fastforce
  from decode_props_total [OF this, of "[]"]
  have "decode_props props [] = Inr ?row"
    using fold_update_distinct [of "[]" props "\<lambda>key v. projr (decode_value v)"] assms(2)
    by simp
  then have dec: "decode_row (JObj page) = Inr (JObj ?row)"
    using assms(4) by (simp add: decode_row_def bind_exn_def)
  have keys: "map fst ?row = map fst props" by (induction props) auto
  have there: "\<exists>k'. spec_named k k' \<and> map_of ?row k' = Some (JStr s)"
    if "(k, s) \<in> set entries" for k s
  proof -
    from that have "(k, encode_value k (JStr s)) \<in> set ?sent" by force
    with stored obtain k' p where kp: "(k', p) \<in> set props" "spec_named k k'"
      "stored_as p (encode_value k (JStr s))" by fastforce
    then have "decode_value p = Inr (JStr s)" by (simp add: decode_stored_value)
    with kp(1) have "(k', JStr s) \<in> set ?row" by force
    moreover have "distinct (map fst ?row)" by (simp only: keys assms(2))
    ultimately have "map_of ?row k' = Some (JStr s)" by simp
    with kp(2) show ?thesis by blast
  qed
  have original: "\<exists>(k, s) \<in> set entries. spec_named k k' \<and> x = JStr s"
    if "(k', x) \<in> set ?row" for k' x
  proof -
    from that obtain p where "(k', p) \<in> set props" "x = projr (decode_value p)" by auto
    with origin [of k' p] show ?thesis by auto
  qed
  from dec keys there original show ?thesis by blast
qed

theorem insert_then_get_round_trip_witness:
  "distinct (map fst [(''Tree'', ''Oak''), (''Status'', ''Done''), (''Notes'', ''x'')])
   \<and> stored_record
        [(''status'', JObj [(''id'', JStr ''a1''), (''type'', JStr ''select''),
            (''select'', JObj [(''id'', JStr ''o1''), (''name'', JStr ''Done''),
               (''color'', JStr ''green'')])]),
         (''Tree'', JObj [(''id'', JStr ''title''), (''type'', JStr ''title''),
            (''title'', JArr [JObj [(''type'', JStr ''text''),
               (''text'', JObj [(''content'', JStr ''Oak''), (''link'', JNull)]),
               (''plain_text'', JStr ''Oak'')]])]),
         (''Notes'', JObj [(''id'', JStr ''b2''), (''type'', JStr ''rich_text''),
            (''rich_text'', JArr [JObj [(''type'', JStr ''text''),
               (''text'', JObj [(''content'', JStr ''x''), (''link'', JNull)]),
               (''plain_text'', JStr ''x'')]])])]
        (insert_row_properties
           (map (\<lambda>(k, s). (k, JStr s)) [(''Tree'', ''Oak''), (''Status'', ''Done''), (''Notes'', ''x'')]))
   \<and> decode_row (JObj [(''id'', JStr ''page-9''), (''properties'', JObj
        [(''status'', JObj [(''id'', JStr ''a1''), (''type'', JStr ''select''),
            (''select'', JObj [(''id'', JStr ''o1''), (''name'', JStr ''Done''),
               (''color'', JStr ''green'')])]),
         (''Tree'', JObj [(''id'', JStr ''title''), (''type'', JStr ''title''),
            (''title'', JArr [JObj [(''type'', JStr ''text''),
               (''text'', JObj [(''content'', JStr ''Oak''), (''link'', JNull)]),
               (''plain_text'', JStr ''Oak'')]])]),
         (''Notes'', JObj [(''id'', JStr ''b2''), (''type'', JStr ''rich_text''),
            (''rich_text'', JArr [JObj [(''type'', JStr ''text''),
               (''text'', JObj [(''content'', JStr ''x''), (''link'', JNull)]),
               (''plain_text'', JStr ''x'')]])])])])
     = Inr (JObj [(''status'', JStr ''Done''), (''Tree'', JStr ''Oak''), (''Notes'', JStr ''x'')])"
  using insert_then_get_round_trip
    [of "[(''Tree'', ''Oak''), (''Status'', ''Done''), (''Notes'', ''x'')]"
        "[(''status'', JObj [(''id'', JStr ''a1''), (''type'', JStr ''select''),
            (''select'', JObj [(''id'', JStr ''o1''), (''name'', JStr ''Done''),
               (''color'', JStr ''green'')])]),
         (''Tree'', JObj [(''id'', JStr ''title''), (''type'', JStr ''title''),
            (''title'', JArr [JObj [(''type'', JStr ''text''),
               (''text'', JObj [(''content'', JStr ''Oak''), (''link'', JNull)]),
               (''plain_text'', JStr ''Oak'')]])]),
         (''Notes'', JObj [(''id'', JStr ''b2''), (''type'', JStr ''rich_text''),
            (''rich_text'', JArr [JObj [(''type'', JStr ''text''),
               (''text'', JObj [(''content'', JStr ''x''), (''link'', JNull)]),
               (''plain_text'', JStr ''x'')]])])]"
        "[(''id'', JStr ''page-9''), (''properties'', JObj
        [(''status'', JObj [(''id'', JStr ''a1''), (''type'', JStr ''select''),
            (''select'', JObj [(''id'', JStr ''o1''), (''name'', JStr ''Done''),
               (''color'', JStr ''green'')])]),
         (''Tree'', JObj [(''id'', JStr ''title''), (''type'', JStr ''title''),
            (''title'', JArr [JObj [(''type'', JStr ''text''),
               (''text'', JObj [(''content'', JStr ''Oak''), (''link'', JNull)]),
               (''plain_text'', JStr ''Oak'')]])]),
         (''Notes'', JObj [(''id'', JStr ''b2''), (''type'', JStr ''rich_text''),
            (''rich_text'', JArr [JObj [(''type'', JStr ''text''),
               (''text'', JObj [(''content'', JStr ''x''), (''link'', JNull)]),
               (''plain_text'', JStr ''x'')]])])])]"]
  by (simp add: stored_record_def insert_row_properties_def encode_value_def lower_def
      lower_char_def char_of_eq_iff spec_named_def spec_same_letter_def decode_row_def
      decode_value_def first_content_def bind_exn_def)

section \<open>The schema sent by \<^verbatim>\<open>create_table\<close>\<close>

lemma create_table_sends:
  assumes "map_of kvs ''table'' = Some table_name" and "truthy table_name"
    and "map_of kvs ''fields'' = Some (JObj items)" and "items \<noteq> []"
  shows "\<exists>n. (n = 1 \<or> n = 2)
    \<and> st (snd (create_table notion PAGE_ID (Inr (JObj kvs)) w))
        = st w @ replicate n (create_request PAGE_ID table_name (create_table_properties items))"
proof -
  let ?c = "create_request PAGE_ID table_name (create_table_properties items)"
  have "truthy (JObj items)" using assms(4) by simp
  note eq = create_table_valid [OF assms(1,2,3) this, of notion PAGE_ID w]
  show ?thesis
  proof (cases "notion (st w @ [?c])")
    case (Inr db)
    then have "st (snd (create_table notion PAGE_ID (Inr (JObj kvs)) w)) = st w @ replicate 1 ?c"
      by (simp add: eq create_table_try_def create_db_def safe_notion_call_request
          split: sum.splits)
    then show ?thesis by blast
  next
    case (Inl e1)
    show ?thesis
    proof (cases "is_Exception e1")
      case True
      with Inl have "st (snd (create_table notion PAGE_ID (Inr (JObj kvs)) w))
          = st w @ replicate 2 ?c"
        by (simp add: eq create_table_try_def create_db_def safe_notion_call_request
            numeral_2_eq_2 split: sum.splits)
      then show ?thesis by blast
    next
      case False
      with Inl have "st (snd (create_table notion PAGE_ID (Inr (JObj kvs)) w))
          = st w @ replicate 1 ?c"
        by (simp add: eq create_table_try_def create_db_def safe_notion_call_request
            split: sum.splits)
      then show ?thesis by blast
    qed
  qed
qed

lemma has_key_title_property:
  "has_key ''title'' (create_table_property t) \<longleftrightarrow> t = JStr ''title''"
  by (simp add: create_table_property_def)

lemma filter_title_properties:
  "filter (\<lambda>(name, prop). has_key ''title'' prop)
      (map (\<lambda>(name, t). (name, create_table_property t)) items)
   = map (\<lambda>(name, t). (name, create_table_property t))
      (filter (\<lambda>(name, t). t = JStr ''title'') items)"
  by (induction items) (auto simp add: has_key_title_property)

lemma create_table_properties_distinct:
  assumes "distinct (map fst items)"
  shows "create_table_properties items =
    (if filter (\<lambda>(name, t). t = JStr ''title'') items = []
     then AList.update ''Name'' (JObj [(''title'', JObj [])])
            (map (\<lambda>(name, t). (name, create_table_property t)) items)
     else map (\<lambda>(name, t). (name, create_table_property t)) items)"
proof -
  let ?P = "map (\<lambda>(name, t). (name, create_table_property t)) items"
  have f: "fold (\<lambda>(name, ftype) props. AList.update name (create_table_property ftype) props)
      items [] = ?P"
    using fold_update_distinct [of "[]" items "\<lambda>name t. create_table_property t"] assms by simp
  have "list_ex (\<lambda>(name, prop). has_key ''title'' prop) ?P
      \<longleftrightarrow> filter (\<lambda>(name, prop). has_key ''title'' prop) ?P \<noteq> []"
    by (simp add: list_ex_iff filter_empty_conv)
  then have "list_ex (\<lambda>(name, prop). has_key ''title'' prop) ?P
      \<longleftrightarrow> filter (\<lambda>(name, t). t = JStr ''title'') items \<noteq> []"
    by (simp add: filter_title_properties)
  then show ?thesis by (simp add: create_table_properties_def f)
qed

lemma filter_update_only:
  assumes "Q (k, v)" and "\<forall>p \<in> set al. \<not> Q p"
  shows "filter Q (AList.update k v al) = [(k, v)]"
  using assms by (induction al) auto


text \<open>
  C2 (as amended). A request that passes validation, with distinct field names none
  of which is declared \<^verbatim>\<open>"title"\<close>: every request sent (one, or two when the first
  fails) carries the same schema, the declared fields in order with a field
  \<^verbatim>\<open>Name\<close> of title kind set on top. That schema has exactly one title field, which
  is \<^verbatim>\<open>Name\<close>, and every declared field with another name, with its mapped fragment.
\<close>

theorem create_table_adds_name:
  assumes "map_of kvs ''table'' = Some table_name" and "truthy table_name"
    and "map_of kvs ''fields'' = Some (JObj items)" and "items \<noteq> []"
    and "distinct (map fst items)"
    and "\<forall>(name, ftype) \<in> set items. ftype \<noteq> JStr ''title''"
  shows "\<exists>n props. (n = 1 \<or> n = 2)
    \<and> st (snd (create_table notion PAGE_ID (Inr (JObj kvs)) w))
        = st w @ replicate n (create_request PAGE_ID table_name props)
    \<and> props = AList.update ''Name'' (JObj [(''title'', JObj [])])
        (map (\<lambda>(name, ftype). (name, create_table_property ftype)) items)
    \<and> distinct (map fst props)
    \<and> map_of props ''Name'' = Some (JObj [(''title'', JObj [])])
    \<and> filter (\<lambda>(name, prop). has_key ''title'' prop) props
        = [(''Name'', JObj [(''title'', JObj [])])]
    \<and> fst ` set props = insert ''Name'' (fst ` set items)
    \<and> (\<forall>(name, ftype) \<in> set items.
          name \<noteq> ''Name'' \<longrightarrow> map_of props name = Some (create_table_property ftype))"
proof -
  let ?P = "map (\<lambda>(name, ftype). (name, create_table_property ftype)) items"
  let ?props = "AList.update ''Name'' (JObj [(''title'', JObj [])]) ?P"
  have keys: "map fst ?P = map fst items" by (induction items) auto
  have none: "filter (\<lambda>(name, t). t = JStr ''title'') items = []"
    using assms(6) by (auto simp add: filter_empty_conv)
  have props: "create_table_properties items = ?props"
    by (simp add: create_table_properties_distinct [OF assms(5)] none)
  from create_table_sends [OF assms(1-4), of notion PAGE_ID w] props
  obtain n where n: "n = 1 \<or> n = 2"
    "st (snd (create_table notion PAGE_ID (Inr (JObj kvs)) w))
      = st w @ replicate n (create_request PAGE_ID table_name ?props)"
    by auto
  have dP: "distinct (map fst ?P)" by (simp only: keys assms(5))
  have d: "distinct (map fst ?props)" by (rule distinct_update) (rule dP)
  have m: "map_of ?props ''Name'' = Some (JObj [(''title'', JObj [])])"
    by (simp add: update_conv')
  have "\<forall>p \<in> set ?P. \<not> (\<lambda>(name, prop). has_key ''title'' prop) p"
    using assms(6) by (auto simp add: has_key_title_property)
  then have f: "filter (\<lambda>(name, prop). has_key ''title'' prop) ?props
      = [(''Name'', JObj [(''title'', JObj [])])]"
    by (intro filter_update_only) simp_all
  have "fst ` set ?P = set (map fst ?P)" by (simp only: set_map)
  also have "\<dots> = fst ` set items" by (simp only: keys set_map)
  finally have k: "fst ` set ?props = insert ''Name'' (fst ` set items)"
    by (simp only: dom_update) simp
  have r: "\<forall>(name, ftype) \<in> set items.
      name \<noteq> ''Name'' \<longrightarrow> map_of ?props name = Some (create_table_property ftype)"
  proof (clarify)
    fix name ftype
    assume "(name, ftype) \<in> set items" "name \<noteq> ''Name''"
    then have "(name, create_table_property ftype) \<in> set ?P" by force
    with dP have "map_of ?P name = Some (create_table_property ftype)" by simp
    then show "map_of ?props name = Some (create_table_property ftype)"
      using \<open>name \<noteq> ''Name''\<close> by (simp add: update_conv')
  qed
  from n d m f k r show ?thesis by blast
qed

text \<open>
  C4 (as amended). A request that passes validation, with distinct field names: the
  schema sent has at least one title field; it has as many as the request declares,
  and one when the request declares none.
\<close>

theorem create_table_title_count:
  assumes "map_of kvs ''table'' = Some table_name" and "truthy table_name"
    and "map_of kvs ''fields'' = Some (JObj items)" and "items \<noteq> []"
    and "distinct (map fst items)"
  shows "\<exists>n props. (n = 1 \<or> n = 2)
    \<and> st (snd (create_table notion PAGE_ID (Inr (JObj kvs)) w))
        = st w @ replicate n (create_request PAGE_ID table_name props)
    \<and> length (filter (\<lambda>(name, prop). has_key ''title'' prop) props)
        = max 1 (length (filter (\<lambda>(name, ftype). ftype = JStr ''title'') items))"
proof -
  let ?P = "map (\<lambda>(name, ftype). (name, create_table_property ftype)) items"
  let ?props = "create_table_properties items"
  from create_table_sends [OF assms(1-4), of notion PAGE_ID w]
  obtain n where n: "n = 1 \<or> n = 2"
    "st (snd (create_table notion PAGE_ID (Inr (JObj kvs)) w))
      = st w @ replicate n (create_request PAGE_ID table_name ?props)"
    by auto
  have "length (filter (\<lambda>(name, prop). has_key ''title'' prop) ?props)
      = max 1 (length (filter (\<lambda>(name, ftype). ftype = JStr ''title'') items))"
  proof (cases "filter (\<lambda>(name, t). t = JStr ''title'') items = []")
    case True
    then have "\<forall>p \<in> set ?P. \<not> (\<lambda>(name, prop). has_key ''title'' prop) p"
      by (auto simp add: has_key_title_property filter_empty_conv)
    then have "filter (\<lambda>(name, prop). has_key ''title'' prop)
        (AList.update ''Name'' (JObj [(''title'', JObj [])]) ?P)
      = [(''Name'', JObj [(''title'', JObj [])])]"
      by (intro filter_update_only) simp_all
    then show ?thesis
      using True by (simp add: create_table_properties_distinct [OF assms(5)])
  next
    case False
    then have "1 \<le> length (filter (\<lambda>(name, t). t = JStr ''title'') items)"
      by (cases "filter (\<lambda>(name, t). t = JStr ''title'') items") simp_all
    then show ?thesis
      using False
      by (simp add: create_table_properties_distinct [OF assms(5)] filter_title_properties)
  qed
  with n show ?thesis by blast
qed


theorem create_table_adds_name_witness:
  "map_of [(''table'', JStr ''Trees''),
      (''fields'', JObj [(''Notes'', JStr ''rich_text''), (''Status'', JStr ''select'')])] ''fields''
     = Some (JObj [(''Notes'', JStr ''rich_text''), (''Status'', JStr ''select'')])
   \<and> distinct (map fst [(''Notes'', JStr ''rich_text''), (''Status'', JStr ''select'')])
   \<and> filter (\<lambda>(name, ftype). ftype = JStr ''title'')
        [(''Notes'', JStr ''rich_text''), (''Status'', JStr ''select'')] = []
   \<and> (\<exists>n. (n = 1 \<or> n = 2)
      \<and> st (snd (create_table (\<lambda>sent. Inr (JObj [(''id'', JStr ''db-7'')])) (JStr ''page-1'')
            (Inr (JObj [(''table'', JStr ''Trees''),
              (''fields'', JObj [(''Notes'', JStr ''rich_text''), (''Status'', JStr ''select'')])]))
            \<lparr>st = [], trace = []\<rparr>))
        = replicate n (create_request (JStr ''page-1'') (JStr ''Trees'')
            [(''Notes'', JObj [(''rich_text'', JObj [])]),
             (''Status'', JObj [(''select'', JObj [])]),
             (''Name'', JObj [(''title'', JObj [])])]))"
  using create_table_adds_name
    [of "[(''table'', JStr ''Trees''),
          (''fields'', JObj [(''Notes'', JStr ''rich_text''), (''Status'', JStr ''select'')])]"
        "JStr ''Trees''" "[(''Notes'', JStr ''rich_text''), (''Status'', JStr ''select'')]"
        "\<lambda>sent. Inr (JObj [(''id'', JStr ''db-7'')])" "JStr ''page-1''" "\<lparr>st = [], trace = []\<rparr>"]
  by (simp add: create_table_property_def) blast

text \<open>
  C2 as stated fails: a field declared \<^verbatim>\<open>{"Name": "rich_text"}\<close> is overwritten by the
  synthesized title field.
\<close>

theorem declared_name_is_overwritten:
  "create_table (\<lambda>sent. Inr (JObj [(''id'', JStr ''db-7'')])) (JStr ''page-1'')
     (Inr (JObj [(''table'', JStr ''Trees''), (''fields'', JObj [(''Name'', JStr ''rich_text'')])]))
     \<lparr>st = [], trace = []\<rparr>
   = (Response 200 (JObj [(''message'', JStr ''OK''), (''database_id'', JStr ''db-7'')]),
      \<lparr>st = [create_request (JStr ''page-1'') (JStr ''Trees'')
               [(''Name'', JObj [(''title'', JObj [])])]],
       trace = [Invoked]\<rparr>)
   \<and> create_table_property (JStr ''rich_text'') = JObj [(''rich_text'', JObj [])]"
  by (simp add: create_table_def create_table_try_def create_db_def safe_notion_call_request
      create_table_properties_def create_table_property_def)

theorem create_table_title_count_witness:
  "map_of [(''table'', JStr ''Trees''),
      (''fields'', JObj [(''Tree'', JStr ''title''), (''Notes'', JStr ''rich_text'')])] ''fields''
     = Some (JObj [(''Tree'', JStr ''title''), (''Notes'', JStr ''rich_text'')])
   \<and> distinct (map fst [(''Tree'', JStr ''title''), (''Notes'', JStr ''rich_text'')])
   \<and> (\<exists>n props. (n = 1 \<or> n = 2)
      \<and> st (snd (create_table (\<lambda>sent. Inr (JObj [(''id'', JStr ''db-7'')])) (JStr ''page-1'')
            (Inr (JObj [(''table'', JStr ''Trees''),
              (''fields'', JObj [(''Tree'', JStr ''title''), (''Notes'', JStr ''rich_text'')])]))
            \<lparr>st = [], trace = []\<rparr>))
        = replicate n (create_request (JStr ''page-1'') (JStr ''Trees'') props)
      \<and> length (filter (\<lambda>(name, prop). has_key ''title'' prop) props) = 1)"
  using create_table_title_count
    [of "[(''table'', JStr ''Trees''),
          (''fields'', JObj [(''Tree'', JStr ''title''), (''Notes'', JStr ''rich_text'')])]"
        "JStr ''Trees''" "[(''Tree'', JStr ''title''), (''Notes'', JStr ''rich_text'')]"
        "\<lambda>sent. Inr (JObj [(''id'', JStr ''db-7'')])" "JStr ''page-1''" "\<lparr>st = [], trace = []\<rparr>"]
  by simp

text \<open>
  C4 as stated fails: two fields declared \<^verbatim>\<open>"title"\<close> are both sent as title fields.
\<close>

theorem two_declared_titles_are_both_sent:
  "create_table (\<lambda>sent. Inr (JObj [(''id'', JStr ''db-7'')])) (JStr ''page-1'')
     (Inr (JObj [(''table'', JStr ''Trees''),
        (''fields'', JObj [(''Tree'', JStr ''title''), (''Name'', JStr ''title'')])]))
     \<lparr>st = [], trace = []\<rparr>
   = (Response 200 (JObj [(''message'', JStr ''OK''), (''database_id'', JStr ''db-7'')]),
      \<lparr>st = [create_request (JStr ''page-1'') (JStr ''Trees'')
               [(''Tree'', JObj [(''title'', JObj [])]), (''Name'', JObj [(''title'', JObj [])])]],
       trace = [Invoked]\<rparr>)
   \<and> length (filter (\<lambda>(name, prop). has_key ''title'' prop)
        [(''Tree'', JObj [(''title'', JObj [])]), (''Name'', JObj [(''title'', JObj [])])]) = 2"
  by (simp add: create_table_def create_table_try_def create_db_def safe_notion_call_request
      create_table_properties_def create_table_property_def)

end
